theory Spec2Isabelle
  imports Main "HOL-Library.AList" "HOL-Library.Product_Lexorder"
begin

section \<open>Python values\<close>

text \<open>
  The tracker's public methods are called with arbitrary Python objects and check them
  with \<^verbatim>\<open>isinstance\<close> and truthiness, so the arguments are modelled as a datatype of
  the values that can arrive (for instance from a decoded JSON body). A float is kept as
  a pair \<open>(m, e)\<close> standing for \<open>m * 2 ^ e\<close>; only its type and its being zero matter here.
\<close>

datatype pyval =
    PNone
  | PBool bool
  | PInt int
  | PFloat int int
  | PStr string
  | PList "pyval list"
  | PDict "(pyval \<times> pyval) list"

text \<open>
  The exceptions that can leave the modelled code: a \<^verbatim>\<open>ValueError\<close> or \<^verbatim>\<open>TypeError\<close> with its
  message, and a \<^verbatim>\<open>KeyError\<close> with the missing key. \<open>ValueError_fromisoformat s\<close> is the
  \<^verbatim>\<open>ValueError\<close> that \<^verbatim>\<open>datetime.fromisoformat\<close> raises on the text \<open>s\<close>: its message is the
  library's own and differs between Python versions, so the text is kept in its place.
\<close>

datatype error =
    ValueError string
  | KeyError string
  | TypeError string
  | ValueError_fromisoformat string

text \<open>\<^verbatim>\<open>bool(v)\<close>: what \<^verbatim>\<open>not v\<close> negates.\<close>

fun truthy :: "pyval \<Rightarrow> bool" where
  "truthy PNone = False"
| "truthy (PBool b) = b"
| "truthy (PInt n) = (n \<noteq> 0)"
| "truthy (PFloat m e) = (m \<noteq> 0)"
| "truthy (PStr s) = (s \<noteq> [])"
| "truthy (PList xs) = (xs \<noteq> [])"
| "truthy (PDict kvs) = (kvs \<noteq> [])"

fun isinstance_str :: "pyval \<Rightarrow> bool" where
  "isinstance_str (PStr s) = True"
| "isinstance_str v = False"

text \<open>
  \<^verbatim>\<open>isinstance(v, int)\<close>: in Python \<^verbatim>\<open>bool\<close> is a subclass of \<^verbatim>\<open>int\<close>, with
  \<^verbatim>\<open>True == 1\<close> and \<^verbatim>\<open>False == 0\<close>. \<open>int_value\<close> is the integer such an object denotes.
\<close>

fun int_value :: "pyval \<Rightarrow> int option" where
  "int_value (PInt n) = Some n"
| "int_value (PBool b) = Some (if b then 1 else 0)"
| "int_value v = None"

definition isinstance_int :: "pyval \<Rightarrow> bool" where
  "isinstance_int v = (int_value v \<noteq> None)"

text \<open>
  \<^verbatim>\<open>v <= 0\<close> for an instance of \<^verbatim>\<open>int\<close>. The source evaluates it only to the right of
  \<^verbatim>\<open>not isinstance(v, int) or\<close>, so the last case is never reached.
\<close>

definition le_zero :: "pyval \<Rightarrow> bool" where
  "le_zero v = (case int_value v of Some n \<Rightarrow> n \<le> 0 | None \<Rightarrow> False)"

section \<open>Timestamps\<close>

text \<open>
  \<^verbatim>\<open>datetime.now()\<close> without a time zone gives a naive \<^verbatim>\<open>datetime\<close>: seven integer
  fields, compared lexicographically.
\<close>

datatype datetime =
  Datetime (year: nat) (month: nat) (day: nat) (hour: nat) (minute: nat) (second: nat)
    (microsecond: nat)

definition dt_tuple :: "datetime \<Rightarrow> nat \<times> nat \<times> nat \<times> nat \<times> nat \<times> nat \<times> nat" where
  "dt_tuple t = (year t, month t, day t, hour t, minute t, second t, microsecond t)"

definition dt_le :: "datetime \<Rightarrow> datetime \<Rightarrow> bool" where
  "dt_le a b = (dt_tuple a \<le> dt_tuple b)"

definition is_leap :: "nat \<Rightarrow> bool" where
  "is_leap y = (y mod 4 = 0 \<and> (y mod 100 \<noteq> 0 \<or> y mod 400 = 0))"

definition days_in_month :: "nat \<Rightarrow> nat \<Rightarrow> nat" where
  "days_in_month y m =
     (if m = 2 then (if is_leap y then 29 else 28)
      else if m = 4 \<or> m = 6 \<or> m = 9 \<or> m = 11 then 30 else 31)"

text \<open>The range checks of the \<^verbatim>\<open>datetime\<close> constructor: every datetime object passes them.\<close>

definition valid_datetime :: "datetime \<Rightarrow> bool" where
  "valid_datetime t =
     (1 \<le> year t \<and> year t \<le> 9999 \<and> 1 \<le> month t \<and> month t \<le> 12 \<and>
      1 \<le> day t \<and> day t \<le> days_in_month (year t) (month t) \<and>
      hour t < 24 \<and> minute t < 60 \<and> second t < 60 \<and> microsecond t < 1000000)"

subsection \<open>The clock\<close>

text \<open>
  The system clock is an input of the program: \<open>readings c n\<close> is what the \<open>n\<close>-th call
  of \<^verbatim>\<open>datetime.now()\<close> returns, and \<open>ticks c\<close> counts the calls made so far.
\<close>

record clock =
  readings :: "nat \<Rightarrow> datetime"
  ticks :: nat

definition datetime_now :: "clock \<Rightarrow> datetime \<times> clock" where
  "datetime_now c = (readings c (ticks c), c\<lparr>ticks := Suc (ticks c)\<rparr>)"

subsection \<open>ISO 8601 text\<close>

text \<open>
  \<^verbatim>\<open>datetime.isoformat()\<close> of a naive datetime is \<^verbatim>\<open>YYYY-MM-DDTHH:MM:SS\<close>, followed by
  \<^verbatim>\<open>.ffffff\<close> when the microsecond is not zero; every field is zero-padded.
\<close>

definition digit_char :: "nat \<Rightarrow> char" where
  "digit_char d = char_of (48 + d)"

fun digits :: "nat \<Rightarrow> nat \<Rightarrow> string" where
  "digits 0 n = []"
| "digits (Suc k) n = digits k (n div 10) @ [digit_char (n mod 10)]"

definition isoformat :: "datetime \<Rightarrow> string" where
  "isoformat t =
     digits 4 (year t) @ ''-'' @ digits 2 (month t) @ ''-'' @ digits 2 (day t) @ ''T'' @
     digits 2 (hour t) @ '':'' @ digits 2 (minute t) @ '':'' @ digits 2 (second t) @
     (if microsecond t = 0 then [] else ''.'' @ digits 6 (microsecond t))"

text \<open>
  \<^verbatim>\<open>datetime.fromisoformat\<close>, restricted to the two shapes that \<open>isoformat\<close> emits for a
  naive datetime, on which it is the library's function; \<open>None\<close> stands for its
  \<^verbatim>\<open>ValueError\<close>. The library reads further shapes (a date alone, another separator, a
  shorter fraction, a time zone offset); they are outside this model, which gives \<open>None\<close>
  for them, and nothing below is stated about them.
\<close>

definition digit_val :: "char \<Rightarrow> nat option" where
  "digit_val c =
     (let n = (of_char c :: nat) in if 48 \<le> n \<and> n \<le> 57 then Some (n - 48) else None)"

fun parse_nat_acc :: "nat \<Rightarrow> string \<Rightarrow> nat option" where
  "parse_nat_acc acc [] = Some acc"
| "parse_nat_acc acc (c # cs) =
     (case digit_val c of None \<Rightarrow> None | Some d \<Rightarrow> parse_nat_acc (10 * acc + d) cs)"

definition parse_nat :: "string \<Rightarrow> nat option" where
  "parse_nat s = (if s = [] then None else parse_nat_acc 0 s)"

definition field :: "string \<Rightarrow> nat \<Rightarrow> nat \<Rightarrow> nat option" where
  "field s start len = parse_nat (take len (drop start s))"

definition fromisoformat :: "string \<Rightarrow> datetime option" where
  "fromisoformat s =
     (if (length s = 19 \<or> length s = 26 \<and> s ! 19 = CHR ''.'') \<and>
         s ! 4 = CHR ''-'' \<and> s ! 7 = CHR ''-'' \<and> s ! 10 = CHR ''T'' \<and>
         s ! 13 = CHR '':'' \<and> s ! 16 = CHR '':''
      then
        (case (field s 0 4, field s 5 2, field s 8 2, field s 11 2, field s 14 2, field s 17 2,
               if length s = 19 then Some 0 else field s 20 6) of
           (Some y, Some m, Some d, Some h, Some mi, Some sec, Some us) \<Rightarrow>
             (let t = Datetime y m d h mi sec us in if valid_datetime t then Some t else None)
         | _ \<Rightarrow> None)
      else None)"

section \<open>models.py: the Order dataclass\<close>

text \<open>
  A dataclass does not check the annotated types of its fields, so the five data fields
  hold whatever object was passed in. The two timestamps are \<^verbatim>\<open>Optional[datetime]\<close>.
\<close>

record order =
  order_id :: pyval
  item_name :: pyval
  quantity :: pyval
  customer_id :: pyval
  status :: pyval
  created_at :: "datetime option"
  updated_at :: "datetime option"

text \<open>
  The generated constructor followed by \<^verbatim>\<open>__post_init__\<close>: each missing timestamp is
  filled by its own call of \<^verbatim>\<open>datetime.now()\<close>, \<open>created_at\<close> first.
\<close>

definition post_init :: "clock \<Rightarrow> order \<Rightarrow> order \<times> clock" where
  "post_init c ord =
     (let (ord1, c1) =
            (if created_at ord = None
             then (let (t, c') = datetime_now c in (ord\<lparr>created_at := Some t\<rparr>, c'))
             else (ord, c))
      in if updated_at ord1 = None
         then (let (t, c') = datetime_now c1 in (ord1\<lparr>updated_at := Some t\<rparr>, c'))
         else (ord1, c1))"

definition Order ::
  "clock \<Rightarrow> pyval \<Rightarrow> pyval \<Rightarrow> pyval \<Rightarrow> pyval \<Rightarrow> pyval \<Rightarrow> datetime option \<Rightarrow> datetime option
     \<Rightarrow> order \<times> clock" where
  "Order c oid item qty cust st cre upd =
     post_init c \<lparr>order_id = oid, item_name = item, quantity = qty, customer_id = cust,
                   status = st, created_at = cre, updated_at = upd\<rparr>"

definition update_status :: "clock \<Rightarrow> order \<Rightarrow> pyval \<Rightarrow> order \<times> clock" where
  "update_status c ord new_status =
     (let (t, c') = datetime_now c
      in (ord\<lparr>status := new_status, updated_at := Some t\<rparr>, c'))"

text \<open>A Python dict with string keys, in insertion order.\<close>

type_synonym order_data = "(string \<times> pyval) list"

definition timestamp_text :: "datetime option \<Rightarrow> pyval" where
  "timestamp_text ts = (case ts of Some t \<Rightarrow> PStr (isoformat t) | None \<Rightarrow> PNone)"

definition to_dict :: "order \<Rightarrow> order_data" where
  "to_dict ord =
     [(''order_id'', order_id ord),
      (''item_name'', item_name ord),
      (''quantity'', quantity ord),
      (''customer_id'', customer_id ord),
      (''status'', status ord),
      (''created_at'', timestamp_text (created_at ord)),
      (''updated_at'', timestamp_text (updated_at ord))]"

text \<open>
  \<^verbatim>\<open>if k in data and data[k]: ts = datetime.fromisoformat(data[k])\<close>, with the
  \<^verbatim>\<open>TypeError\<close> of a non-string argument and the \<^verbatim>\<open>ValueError\<close> of an unreadable one.
\<close>

definition parse_timestamp :: "order_data \<Rightarrow> string \<Rightarrow> error + datetime option" where
  "parse_timestamp data k =
     (case map_of data k of
        None \<Rightarrow> Inr None
      | Some v \<Rightarrow>
          if \<not> truthy v then Inr None
          else (case v of
                  PStr s \<Rightarrow>
                    (case fromisoformat s of
                       Some t \<Rightarrow> Inr (Some t)
                     | None \<Rightarrow> Inl (ValueError_fromisoformat s))
                | _ \<Rightarrow> Inl (TypeError ''fromisoformat: argument must be str'')))"

text \<open>\<^verbatim>\<open>data[k]\<close> raises \<^verbatim>\<open>KeyError\<close> on a missing key.\<close>

definition subscript :: "order_data \<Rightarrow> string \<Rightarrow> error + pyval" where
  "subscript data k = (case map_of data k of None \<Rightarrow> Inl (KeyError k) | Some v \<Rightarrow> Inr v)"

definition from_dict :: "clock \<Rightarrow> order_data \<Rightarrow> (error + order) \<times> clock" where
  "from_dict c data =
     (case parse_timestamp data ''created_at'' of Inl e \<Rightarrow> (Inl e, c) | Inr cre \<Rightarrow>
     (case parse_timestamp data ''updated_at'' of Inl e \<Rightarrow> (Inl e, c) | Inr upd \<Rightarrow>
     (case subscript data ''order_id'' of Inl e \<Rightarrow> (Inl e, c) | Inr oid \<Rightarrow>
     (case subscript data ''item_name'' of Inl e \<Rightarrow> (Inl e, c) | Inr item \<Rightarrow>
     (case subscript data ''quantity'' of Inl e \<Rightarrow> (Inl e, c) | Inr qty \<Rightarrow>
     (case subscript data ''customer_id'' of Inl e \<Rightarrow> (Inl e, c) | Inr cust \<Rightarrow>
        (let st = (case map_of data ''status'' of Some v \<Rightarrow> v | None \<Rightarrow> PStr ''pending'')
         in (case Order c oid item qty cust st cre upd of (ord, c') \<Rightarrow> (Inr ord, c')))))))))"

section \<open>in_memory_storage.py: the repository\<close>

text \<open>
  \<^verbatim>\<open>self.orders\<close> is a dict from order id to Order object. A Python dict iterates in
  insertion order and an assignment to an existing key keeps the key's place, which is
  what \<open>AList.update\<close> does on an association list. Keys are compared structurally; on
  strings, the only keys the tracker stores, that is Python's \<^verbatim>\<open>==\<close>. The class also has a
  generic key-value dict with \<^verbatim>\<open>get\<close>, \<^verbatim>\<open>set\<close> and \<^verbatim>\<open>delete\<close> that the tracker never
  touches; it is left out.
\<close>

record in_memory_storage =
  orders :: "(pyval \<times> order) list"

definition InMemoryStorage :: in_memory_storage where
  "InMemoryStorage = \<lparr>orders = []\<rparr>"

definition clear :: "in_memory_storage \<Rightarrow> in_memory_storage" where
  "clear s = s\<lparr>orders := []\<rparr>"

definition save_order :: "in_memory_storage \<Rightarrow> order \<Rightarrow> in_memory_storage" where
  "save_order s ord = s\<lparr>orders := AList.update (order_id ord) ord (orders s)\<rparr>"

definition storage_get_order :: "in_memory_storage \<Rightarrow> pyval \<Rightarrow> order option" where
  "storage_get_order s oid = map_of (orders s) oid"

definition storage_get_all_orders :: "in_memory_storage \<Rightarrow> order list" where
  "storage_get_all_orders s = map snd (orders s)"

definition delete_order :: "in_memory_storage \<Rightarrow> pyval \<Rightarrow> bool \<times> in_memory_storage" where
  "delete_order s oid =
     (if map_of (orders s) oid \<noteq> None
      then (True, s\<lparr>orders := AList.delete oid (orders s)\<rparr>)
      else (False, s))"

definition storage_get_orders_by_status :: "in_memory_storage \<Rightarrow> pyval \<Rightarrow> order list" where
  "storage_get_orders_by_status s st = filter (\<lambda>ord. status ord = st) (map snd (orders s))"

definition storage_get_orders_by_customer :: "in_memory_storage \<Rightarrow> pyval \<Rightarrow> order list" where
  "storage_get_orders_by_customer s cust =
     filter (\<lambda>ord. customer_id ord = cust) (map snd (orders s))"

section \<open>order_tracker.py: the tracker\<close>

text \<open>
  The state a tracker method runs in: the storage the tracker was built with and the
  system clock. A method returns its result, or the exception it raised, with the state
  it leaves behind.
\<close>

record world =
  storage :: in_memory_storage
  clock :: clock

definition OrderTracker :: "(nat \<Rightarrow> datetime) \<Rightarrow> world" where
  "OrderTracker rs = \<lparr>storage = InMemoryStorage, clock = \<lparr>readings = rs, ticks = 0\<rparr>\<rparr>"

text \<open>\<^verbatim>\<open>not v or not isinstance(v, str)\<close>\<close>

definition not_a_string :: "pyval \<Rightarrow> bool" where
  "not_a_string v = (\<not> truthy v \<or> \<not> isinstance_str v)"

text \<open>\<^verbatim>\<open>not isinstance(v, int) or v <= 0\<close>\<close>

definition not_a_quantity :: "pyval \<Rightarrow> bool" where
  "not_a_quantity v = (\<not> isinstance_int v \<or> le_zero v)"

text \<open>\<^verbatim>\<open>f"Order with ID '{order_id}' already exists"\<close>, reached with a string only.\<close>

definition already_exists :: "pyval \<Rightarrow> string" where
  "already_exists oid =
     ''Order with ID '' @ [CHR 0x27] @ (case oid of PStr s \<Rightarrow> s | _ \<Rightarrow> []) @ [CHR 0x27] @
     '' already exists''"

definition create_order ::
  "world \<Rightarrow> pyval \<Rightarrow> pyval \<Rightarrow> pyval \<Rightarrow> pyval \<Rightarrow> (error + order_data) \<times> world" where
  "create_order w oid item qty cust =
     (if not_a_string oid then (Inl (ValueError ''order_id is mandatory''), w)
      else if not_a_string item then (Inl (ValueError ''item_name is mandatory''), w)
      else if not_a_quantity qty
        then (Inl (ValueError ''quantity is mandatory and must be bigger than 0''), w)
      else if not_a_string cust then (Inl (ValueError ''customer_id is mandatory''), w)
      else if storage_get_order (storage w) oid \<noteq> None
        then (Inl (ValueError (already_exists oid)), w)
      else (case Order (clock w) oid item qty cust (PStr ''pending'') None None of
              (ord, c) \<Rightarrow>
                (Inr (to_dict ord), \<lparr>storage = save_order (storage w) ord, clock = c\<rparr>)))"

definition get_order :: "world \<Rightarrow> pyval \<Rightarrow> (error + order_data option) \<times> world" where
  "get_order w oid =
     (if not_a_string oid then (Inl (ValueError ''order_id is mandatory''), w)
      else (case storage_get_order (storage w) oid of
              Some ord \<Rightarrow> (Inr (Some (to_dict ord)), w)
            | None \<Rightarrow> (Inr None, w)))"

text \<open>
  \<^verbatim>\<open>storage.get_order\<close> hands out the stored object itself, so \<^verbatim>\<open>order.update_status\<close>
  changes it where it lies (under the key it was found at) before \<^verbatim>\<open>save_order\<close> files
  the same object under its own \<open>order_id\<close>.
\<close>

definition update_order_status ::
  "world \<Rightarrow> pyval \<Rightarrow> pyval \<Rightarrow> (error + order_data option) \<times> world" where
  "update_order_status w oid new_status =
     (if not_a_string oid then (Inl (ValueError ''order_id is mandatory''), w)
      else if not_a_string new_status then (Inl (ValueError ''new_status is mandatory''), w)
      else (case storage_get_order (storage w) oid of
              None \<Rightarrow> (Inr None, w)
            | Some ord \<Rightarrow>
                (case update_status (clock w) ord new_status of
                   (ord', c) \<Rightarrow>
                     (let s = (storage w)\<lparr>orders := AList.update oid ord' (orders (storage w))\<rparr>
                      in (Inr (Some (to_dict ord')),
                          \<lparr>storage = save_order s ord', clock = c\<rparr>)))))"

definition get_all_orders :: "world \<Rightarrow> (error + order_data list) \<times> world" where
  "get_all_orders w = (Inr (map to_dict (storage_get_all_orders (storage w))), w)"

definition get_orders_by_status :: "world \<Rightarrow> pyval \<Rightarrow> (error + order_data list) \<times> world" where
  "get_orders_by_status w st =
     (if not_a_string st then (Inl (ValueError ''status is mandatory''), w)
      else (Inr (map to_dict (storage_get_orders_by_status (storage w) st)), w))"

definition get_orders_by_customer :: "world \<Rightarrow> pyval \<Rightarrow> (error + order_data list) \<times> world" where
  "get_orders_by_customer w cust =
     (if not_a_string cust then (Inl (ValueError ''customer_id is mandatory''), w)
      else (Inr (map to_dict (storage_get_orders_by_customer (storage w) cust)), w))"

subsection \<open>Sequences of calls\<close>

text \<open>
  A call of one of the tracker's public methods. \<open>outcome\<close> is the exception the call
  raises, if any, with the state it leaves; \<open>run\<close> is the state left by a sequence of calls
  made one after the other on a fresh tracker (an exception is caught by the caller, as
  the request handlers do, and the next call follows).
\<close>

datatype call =
    CreateOrder pyval pyval pyval pyval
  | GetOrder pyval
  | UpdateOrderStatus pyval pyval
  | GetAllOrders
  | GetOrdersByStatus pyval
  | GetOrdersByCustomer pyval

definition raised :: "(error + 'a) \<times> world \<Rightarrow> error option \<times> world" where
  "raised r = ((case fst r of Inl e \<Rightarrow> Some e | Inr v \<Rightarrow> None), snd r)"

fun outcome :: "world \<Rightarrow> call \<Rightarrow> error option \<times> world" where
  "outcome w (CreateOrder oid item qty cust) = raised (create_order w oid item qty cust)"
| "outcome w (GetOrder oid) = raised (get_order w oid)"
| "outcome w (UpdateOrderStatus oid st) = raised (update_order_status w oid st)"
| "outcome w GetAllOrders = raised (get_all_orders w)"
| "outcome w (GetOrdersByStatus st) = raised (get_orders_by_status w st)"
| "outcome w (GetOrdersByCustomer cust) = raised (get_orders_by_customer w cust)"

definition perform :: "world \<Rightarrow> call \<Rightarrow> world" where
  "perform w c = snd (outcome w c)"

definition run :: "(nat \<Rightarrow> datetime) \<Rightarrow> call list \<Rightarrow> world" where
  "run rs calls = foldl perform (OrderTracker rs) calls"

section \<open>Notions used to state the properties\<close>

text \<open>
  The preconditions as the specification words them. A non-empty string is a string that
  is not empty; the empty string, the null value and every value of another type are
  rejected. A quantity is an integer strictly greater than 0; fractional numbers, booleans
  and strings are rejected.
\<close>

fun documented_nonempty_string :: "pyval \<Rightarrow> bool" where
  "documented_nonempty_string (PStr s) = (s \<noteq> [])"
| "documented_nonempty_string v = False"

fun documented_quantity :: "pyval \<Rightarrow> bool" where
  "documented_quantity (PInt n) = (0 < n)"
| "documented_quantity v = False"

text \<open>
  The validation table of the specification: for each method its checks in the documented
  order, each with whether the argument fails the documented precondition and the reason
  to report. \<open>first_failure\<close> picks the reason of the first check that fails.
\<close>

fun documented_checks :: "call \<Rightarrow> (bool \<times> string) list" where
  "documented_checks (CreateOrder oid item qty cust) =
     [(\<not> documented_nonempty_string oid, ''order_id is mandatory''),
      (\<not> documented_nonempty_string item, ''item_name is mandatory''),
      (\<not> documented_quantity qty, ''quantity is mandatory and must be bigger than 0''),
      (\<not> documented_nonempty_string cust, ''customer_id is mandatory'')]"
| "documented_checks (GetOrder oid) =
     [(\<not> documented_nonempty_string oid, ''order_id is mandatory'')]"
| "documented_checks (UpdateOrderStatus oid st) =
     [(\<not> documented_nonempty_string oid, ''order_id is mandatory''),
      (\<not> documented_nonempty_string st, ''new_status is mandatory'')]"
| "documented_checks GetAllOrders = []"
| "documented_checks (GetOrdersByStatus st) =
     [(\<not> documented_nonempty_string st, ''status is mandatory'')]"
| "documented_checks (GetOrdersByCustomer cust) =
     [(\<not> documented_nonempty_string cust, ''customer_id is mandatory'')]"

fun first_failure :: "(bool \<times> string) list \<Rightarrow> string option" where
  "first_failure [] = None"
| "first_failure ((failed, reason) # checks) =
     (if failed then Some reason else first_failure checks)"

text \<open>A clock that never runs backwards.\<close>

definition nondecreasing :: "(nat \<Rightarrow> datetime) \<Rightarrow> bool" where
  "nondecreasing rs = (\<forall>i j. i \<le> j \<longrightarrow> dt_le (rs i) (rs j))"

text \<open>
  An order carries two of the first \<open>n\<close> readings of the clock \<open>rs\<close>, the one in
  \<open>created_at\<close> no later in the sequence of readings than the one in \<open>updated_at\<close>; and a
  state where every stored order does so for the readings taken so far.
\<close>

definition stamped_order :: "(nat \<Rightarrow> datetime) \<Rightarrow> nat \<Rightarrow> order \<Rightarrow> bool" where
  "stamped_order rs n ord =
     (\<exists>i j. i \<le> j \<and> j < n \<and> created_at ord = Some (rs i) \<and> updated_at ord = Some (rs j))"

definition stamped :: "(nat \<Rightarrow> datetime) \<Rightarrow> world \<Rightarrow> bool" where
  "stamped rs w =
     (readings (clock w) = rs \<and>
      (\<forall>ord \<in> set (storage_get_all_orders (storage w)). stamped_order rs (ticks (clock w)) ord))"

text \<open>
  Two clocks for the examples. The first advances one microsecond per reading. The
  second is local time across the end of daylight saving time on 26 October 2025 in
  central Europe: its first two readings fall just before 03:00, when the clocks are set
  back to 02:00, and the later ones just after.
\<close>

definition ticking_clock :: "nat \<Rightarrow> datetime" where
  "ticking_clock n = Datetime 2025 7 31 12 0 0 (min n 999999)"

definition fall_back_clock :: "nat \<Rightarrow> datetime" where
  "fall_back_clock n =
     (if n < 2 then Datetime 2025 10 26 2 59 59 n else Datetime 2025 10 26 2 0 1 0)"

definition sample_order :: order where
  "sample_order =
     \<lparr>order_id = PStr ''ORDER001'', item_name = PStr ''Test Item'', quantity = PInt 5,
      customer_id = PStr ''CUST001'', status = PStr ''pending'',
      created_at = Some (Datetime 2025 7 31 10 0 0 0),
      updated_at = Some (Datetime 2025 7 31 10 0 0 0)\<rparr>"

definition sample_world :: world where
  "sample_world =
     \<lparr>storage = \<lparr>orders = [(PStr ''ORDER001'', sample_order)]\<rparr>,
      clock = \<lparr>readings = ticking_clock, ticks = 0\<rparr>\<rparr>"

definition second_order :: order where
  "second_order =
     sample_order\<lparr>order_id := PStr ''ORDER002'', customer_id := PStr ''CUST002'',
                   status := PStr ''shipped''\<rparr>"

definition third_order :: order where
  "third_order = sample_order\<lparr>order_id := PStr ''ORDER003'', item_name := PStr ''Other Item''\<rparr>"

definition three_orders :: world where
  "three_orders =
     \<lparr>storage = \<lparr>orders = [(PStr ''ORDER001'', sample_order), (PStr ''ORDER002'', second_order),
                            (PStr ''ORDER003'', third_order)]\<rparr>,
      clock = \<lparr>readings = ticking_clock, ticks = 0\<rparr>\<rparr>"

text \<open>The order that \<open>create_order\<close> builds when it reads the clock \<open>c\<close>.\<close>

definition fresh_order :: "clock \<Rightarrow> pyval \<Rightarrow> pyval \<Rightarrow> pyval \<Rightarrow> pyval \<Rightarrow> order" where
  "fresh_order c oid item qty cust =
     \<lparr>order_id = oid, item_name = item, quantity = qty, customer_id = cust,
      status = PStr ''pending'', created_at = Some (readings c (ticks c)),
      updated_at = Some (readings c (Suc (ticks c)))\<rparr>"

section \<open>ISO text reads back\<close>

lemma length_digits [simp]: "length (digits k n) = k"
  by (induction k arbitrary: n) auto

lemma digit_val_digit_char: "d < 10 \<Longrightarrow> digit_val (digit_char d) = Some d"
  by (simp add: digit_val_def digit_char_def Let_def)

lemma parse_nat_acc_append:
  "parse_nat_acc acc (xs @ ys) =
     (case parse_nat_acc acc xs of None \<Rightarrow> None | Some a \<Rightarrow> parse_nat_acc a ys)"
  by (induction xs arbitrary: acc) (auto split: option.splits)

lemma parse_nat_acc_digits:
  "n < 10 ^ k \<Longrightarrow> parse_nat_acc acc (digits k n) = Some (acc * 10 ^ k + n)"
proof (induction k arbitrary: n)
  case 0
  then show ?case by simp
next
  case (Suc k)
  from Suc.prems have "n div 10 < 10 ^ k"
    by (simp add: less_mult_imp_div_less mult.commute)
  then have "parse_nat_acc acc (digits k (n div 10)) = Some (acc * 10 ^ k + n div 10)"
    by (rule Suc.IH)
  then show ?case
    by (simp add: parse_nat_acc_append digit_val_digit_char algebra_simps)
qed

lemma parse_nat_digits: "0 < k \<Longrightarrow> n < 10 ^ k \<Longrightarrow> parse_nat (digits k n) = Some n"
  using parse_nat_acc_digits [of n k 0]
  by (cases k) (simp_all add: parse_nat_def)

lemma field_at:
  "length pre = start \<Longrightarrow> 0 < k \<Longrightarrow> n < 10 ^ k \<Longrightarrow>
     field (pre @ digits k n @ post) start k = Some n"
  by (simp add: field_def parse_nat_digits)

lemma length_isoformat: "length (isoformat t) = (if microsecond t = 0 then 19 else 26)"
  by (simp add: isoformat_def)

lemma isoformat_separators:
  "isoformat t ! 4 = CHR ''-''" "isoformat t ! 7 = CHR ''-''" "isoformat t ! 10 = CHR ''T''"
  "isoformat t ! 13 = CHR '':''" "isoformat t ! 16 = CHR '':''"
  "microsecond t \<noteq> 0 \<Longrightarrow> isoformat t ! 19 = CHR ''.''"
  by (simp_all add: isoformat_def nth_append)

lemma isoformat_year: "year t < 10000 \<Longrightarrow> field (isoformat t) 0 4 = Some (year t)"
  unfolding isoformat_def using field_at [of "[]" 0 4 "year t"] by simp

lemma isoformat_month: "month t < 100 \<Longrightarrow> field (isoformat t) 5 2 = Some (month t)"
  unfolding isoformat_def
  using field_at [of "digits 4 (year t) @ ''-''" 5 2 "month t"] by simp

lemma isoformat_day: "day t < 100 \<Longrightarrow> field (isoformat t) 8 2 = Some (day t)"
  unfolding isoformat_def
  using field_at [of "digits 4 (year t) @ ''-'' @ digits 2 (month t) @ ''-''" 8 2 "day t"]
  by simp

lemma isoformat_hour: "hour t < 100 \<Longrightarrow> field (isoformat t) 11 2 = Some (hour t)"
  unfolding isoformat_def
  using field_at [of "digits 4 (year t) @ ''-'' @ digits 2 (month t) @ ''-'' @
    digits 2 (day t) @ ''T''" 11 2 "hour t"]
  by simp

lemma isoformat_minute: "minute t < 100 \<Longrightarrow> field (isoformat t) 14 2 = Some (minute t)"
  unfolding isoformat_def
  using field_at [of "digits 4 (year t) @ ''-'' @ digits 2 (month t) @ ''-'' @
    digits 2 (day t) @ ''T'' @ digits 2 (hour t) @ '':''" 14 2 "minute t"]
  by simp

lemma isoformat_second: "second t < 100 \<Longrightarrow> field (isoformat t) 17 2 = Some (second t)"
  unfolding isoformat_def
  using field_at [of "digits 4 (year t) @ ''-'' @ digits 2 (month t) @ ''-'' @
    digits 2 (day t) @ ''T'' @ digits 2 (hour t) @ '':'' @ digits 2 (minute t) @ '':''"
    17 2 "second t"]
  by simp

lemma isoformat_microsecond:
  "microsecond t \<noteq> 0 \<Longrightarrow> microsecond t < 1000000 \<Longrightarrow>
     field (isoformat t) 20 6 = Some (microsecond t)"
  unfolding isoformat_def
  using field_at [of "digits 4 (year t) @ ''-'' @ digits 2 (month t) @ ''-'' @
    digits 2 (day t) @ ''T'' @ digits 2 (hour t) @ '':'' @ digits 2 (minute t) @ '':'' @
    digits 2 (second t) @ ''.''" 20 6 "microsecond t" "[]"]
  by simp

lemma days_in_month_le: "days_in_month y m \<le> 31"
  by (simp add: days_in_month_def)

lemma fromisoformat_isoformat:
  assumes "valid_datetime t"
  shows "fromisoformat (isoformat t) = Some t"
proof -
  from assms have b: "year t < 10000" "month t < 100" "day t < 100" "hour t < 100"
    "minute t < 100" "second t < 100" "microsecond t < 1000000"
    using days_in_month_le [of "year t" "month t"] by (auto simp: valid_datetime_def)
  note f = isoformat_year [OF b(1)] isoformat_month [OF b(2)] isoformat_day [OF b(3)]
    isoformat_hour [OF b(4)] isoformat_minute [OF b(5)] isoformat_second [OF b(6)]
  have t: "Datetime (year t) (month t) (day t) (hour t) (minute t) (second t) (microsecond t) = t"
    by simp
  show ?thesis
  proof (cases "microsecond t = 0")
    case True
    with t have "Datetime (year t) (month t) (day t) (hour t) (minute t) (second t) 0 = t"
      by metis
    with assms True show ?thesis
      by (simp add: fromisoformat_def length_isoformat isoformat_separators f)
  next
    case False
    with assms t show ?thesis
      by (simp add: fromisoformat_def length_isoformat isoformat_separators f
          isoformat_microsecond [OF False b(7)])
  qed
qed

section \<open>Validation and creation\<close>

lemma not_a_string_iff: "\<not> not_a_string v \<longleftrightarrow> (\<exists>s. v = PStr s \<and> s \<noteq> [])"
  by (cases v) (simp_all add: not_a_string_def)

lemma not_a_quantity_iff:
  "\<not> not_a_quantity v \<longleftrightarrow> (\<exists>n. v = PInt n \<and> 0 < n) \<or> v = PBool True"
  by (cases v) (auto simp: not_a_quantity_def isinstance_int_def le_zero_def)

lemma Order_without_timestamps:
  "Order c oid item qty cust (PStr ''pending'') None None =
     (fresh_order c oid item qty cust, c\<lparr>ticks := Suc (Suc (ticks c))\<rparr>)"
  by (simp add: Order_def post_init_def datetime_now_def fresh_order_def)

lemma create_order_valid:
  assumes "\<not> not_a_string oid" "\<not> not_a_string item" "\<not> not_a_quantity qty"
    "\<not> not_a_string cust" "storage_get_order (storage w) oid = None"
  shows "create_order w oid item qty cust =
     (Inr (to_dict (fresh_order (clock w) oid item qty cust)),
      \<lparr>storage = save_order (storage w) (fresh_order (clock w) oid item qty cust),
       clock = (clock w)\<lparr>ticks := Suc (Suc (ticks (clock w)))\<rparr>\<rparr>)"
  using assms by (simp add: create_order_def Order_without_timestamps)

lemma get_after_save:
  "storage_get_order (save_order s ord) (order_id ord) = Some ord"
  by (simp add: storage_get_order_def save_order_def update_conv')

text \<open>
  C1. For non-empty strings \<open>oid\<close>, \<open>item\<close>, \<open>cust\<close> and an integer \<open>qty > 0\<close>, with
  nothing stored under \<open>oid\<close>, \<open>create_order\<close> returns a record, and \<open>get_order\<close> on the
  same id in the state it leaves returns that record, whose \<open>order_id\<close>, \<open>item_name\<close>,
  \<open>quantity\<close> and \<open>customer_id\<close> are the inputs and whose \<open>status\<close> is \<open>pending\<close>.
\<close>

theorem create_order_then_get_order:
  assumes "oid = PStr a" "a \<noteq> []" "item = PStr b" "b \<noteq> []" "qty = PInt n" "0 < n"
    "cust = PStr c" "c \<noteq> []" "storage_get_order (storage w) oid = None"
  shows "\<exists>d w'. create_order w oid item qty cust = (Inr d, w') \<and>
           get_order w' oid = (Inr (Some d), w') \<and>
           map_of d ''order_id'' = Some oid \<and> map_of d ''item_name'' = Some item \<and>
           map_of d ''quantity'' = Some qty \<and> map_of d ''customer_id'' = Some cust \<and>
           map_of d ''status'' = Some (PStr ''pending'')"
proof -
  let ?ord = "fresh_order (clock w) oid item qty cust"
  let ?w' = "\<lparr>storage = save_order (storage w) ?ord,
              clock = (clock w)\<lparr>ticks := Suc (Suc (ticks (clock w)))\<rparr>\<rparr>"
  from assms have v: "\<not> not_a_string oid" "\<not> not_a_string item" "\<not> not_a_quantity qty"
    "\<not> not_a_string cust"
    by (simp_all add: not_a_string_iff not_a_quantity_iff)
  have c: "create_order w oid item qty cust = (Inr (to_dict ?ord), ?w')"
    using v assms(9) by (rule create_order_valid)
  have "storage_get_order (storage ?w') (order_id ?ord) = Some ?ord"
    by (simp add: get_after_save)
  then have "storage_get_order (storage ?w') oid = Some ?ord"
    by (simp add: fresh_order_def)
  with v(1) have g: "get_order ?w' oid = (Inr (Some (to_dict ?ord)), ?w')"
    by (simp add: get_order_def)
  have "map_of (to_dict ?ord) ''order_id'' = Some oid"
    "map_of (to_dict ?ord) ''item_name'' = Some item"
    "map_of (to_dict ?ord) ''quantity'' = Some qty"
    "map_of (to_dict ?ord) ''customer_id'' = Some cust"
    "map_of (to_dict ?ord) ''status'' = Some (PStr ''pending'')"
    by (simp_all add: to_dict_def fresh_order_def)
  with c g show ?thesis by blast
qed

theorem create_order_then_get_order_witness:
  "\<exists>d w'. create_order (OrderTracker ticking_clock) (PStr ''ORDER001'') (PStr ''Test Item'')
             (PInt 5) (PStr ''CUST001'') = (Inr d, w') \<and>
          get_order w' (PStr ''ORDER001'') = (Inr (Some d), w') \<and>
          map_of d ''order_id'' = Some (PStr ''ORDER001'') \<and>
          map_of d ''item_name'' = Some (PStr ''Test Item'') \<and>
          map_of d ''quantity'' = Some (PInt 5) \<and>
          map_of d ''customer_id'' = Some (PStr ''CUST001'') \<and>
          map_of d ''status'' = Some (PStr ''pending'')"
  by (rule create_order_then_get_order [of _ "''ORDER001''" _ "''Test Item''" _ 5 _ "''CUST001''"])
    (simp_all add: OrderTracker_def InMemoryStorage_def storage_get_order_def)

text \<open>
  C2, as the code has it. When an order is already stored under \<open>oid\<close> and all four
  arguments pass validation, \<open>create_order\<close> raises a \<^verbatim>\<open>ValueError\<close>, the exception class of
  the validation failures, whose message says that the order id already exists and is
  none of the four validation reasons; it leaves the whole state, and so the stored
  record, as it was.
\<close>

theorem create_order_duplicate_id:
  assumes "storage_get_order (storage w) oid = Some ord"
    "\<not> not_a_string oid" "\<not> not_a_string item" "\<not> not_a_quantity qty" "\<not> not_a_string cust"
  shows "create_order w oid item qty cust = (Inl (ValueError (already_exists oid)), w) \<and>
         already_exists oid \<notin> {''order_id is mandatory'', ''item_name is mandatory'',
           ''quantity is mandatory and must be bigger than 0'', ''customer_id is mandatory''} \<and>
         storage_get_order (storage (snd (create_order w oid item qty cust))) oid = Some ord"
  using assms by (simp add: create_order_def already_exists_def)

theorem create_order_duplicate_id_witness:
  "create_order sample_world (PStr ''ORDER001'') (PStr ''Other Item'') (PInt 9) (PStr ''CUST002'') =
     (Inl (ValueError ''Order with ID 'ORDER001' already exists''), sample_world) \<and>
   storage_get_order (storage sample_world) (PStr ''ORDER001'') = Some sample_order"
  using create_order_duplicate_id [of sample_world "PStr ''ORDER001''" sample_order
      "PStr ''Other Item''" "PInt 9" "PStr ''CUST002''"]
  by (simp add: sample_world_def storage_get_order_def not_a_string_iff not_a_quantity_iff
      already_exists_def)

text \<open>
  C2, as stated, fails: the code has no error kind of its own for a duplicate id. On the
  same storage, a call with a stored id and a call with an invalid quantity both raise a
  \<^verbatim>\<open>ValueError\<close>; only the message tells them apart.
\<close>

theorem create_order_duplicate_id_same_kind:
  "fst (create_order sample_world (PStr ''ORDER001'') (PStr ''Other Item'') (PInt 9)
          (PStr ''CUST002'')) =
     Inl (ValueError ''Order with ID 'ORDER001' already exists'') \<and>
   fst (create_order sample_world (PStr ''ORDER001'') (PStr ''Other Item'') (PInt 0)
          (PStr ''CUST002'')) =
     Inl (ValueError ''quantity is mandatory and must be bigger than 0'')"
  by (simp add: create_order_def not_a_string_def not_a_quantity_def isinstance_int_def
      le_zero_def sample_world_def storage_get_order_def already_exists_def)

text \<open>
  C3. The quantity check is \<^verbatim>\<open>not isinstance(quantity, int) or quantity <= 0\<close>, and
  \<^verbatim>\<open>True\<close> is an instance of \<^verbatim>\<open>int\<close> that is not \<^verbatim>\<open><= 0\<close>: on a fresh tracker,
  \<open>create_order\<close> with the quantity \<^verbatim>\<open>True\<close> raises nothing and stores the order.
\<close>

theorem create_order_accepts_True:
  "create_order (OrderTracker rs) (PStr ''ORD001'') (PStr ''Laptop'') (PBool True) (PStr ''CUST001'') =
     (Inr [(''order_id'', PStr ''ORD001''), (''item_name'', PStr ''Laptop''),
           (''quantity'', PBool True), (''customer_id'', PStr ''CUST001''),
           (''status'', PStr ''pending''),
           (''created_at'', PStr (isoformat (rs 0))), (''updated_at'', PStr (isoformat (rs 1)))],
      \<lparr>storage = \<lparr>orders = [(PStr ''ORD001'',
          \<lparr>order_id = PStr ''ORD001'', item_name = PStr ''Laptop'', quantity = PBool True,
           customer_id = PStr ''CUST001'', status = PStr ''pending'',
           created_at = Some (rs 0), updated_at = Some (rs 1)\<rparr>)]\<rparr>,
       clock = \<lparr>readings = rs, ticks = 2\<rparr>\<rparr>)"
  by (simp add: create_order_def not_a_string_def not_a_quantity_def isinstance_int_def
      le_zero_def OrderTracker_def InMemoryStorage_def storage_get_order_def
      Order_without_timestamps fresh_order_def to_dict_def timestamp_text_def save_order_def)

section \<open>Status updates\<close>

text \<open>
  C6. When nothing is stored under \<open>oid\<close> and both arguments are non-empty strings,
  \<open>update_order_status\<close> returns \<^verbatim>\<open>None\<close>, raises nothing, and leaves the whole state
  (every stored order, and the clock) as it was.
\<close>

theorem update_order_status_unknown_id:
  assumes "storage_get_order (storage w) oid = None" "\<not> not_a_string oid" "\<not> not_a_string st"
  shows "update_order_status w oid st = (Inr None, w)"
  using assms by (simp add: update_order_status_def)

theorem update_order_status_unknown_id_witness:
  "update_order_status sample_world (PStr ''NONEXISTENT'') (PStr ''shipped'') =
     (Inr None, sample_world)"
  by (rule update_order_status_unknown_id)
    (simp_all add: sample_world_def storage_get_order_def not_a_string_def)

section \<open>Timestamps of a new order\<close>

lemma OrderTracker_simps [simp]:
  "storage (OrderTracker rs) = InMemoryStorage"
  "clock (OrderTracker rs) = \<lparr>readings = rs, ticks = 0\<rparr>"
  by (simp_all add: OrderTracker_def)

lemma get_order_InMemoryStorage [simp]: "storage_get_order InMemoryStorage oid = None"
  by (simp add: storage_get_order_def InMemoryStorage_def)

lemma isoformat_noon:
  "isoformat (Datetime 2025 7 31 12 0 0 0) = ''2025-07-31T12:00:00''"
  "isoformat (Datetime 2025 7 31 12 0 0 (Suc 0)) = ''2025-07-31T12:00:00.000001''"
  by code_simp+

text \<open>
  C4. \<^verbatim>\<open>__post_init__\<close> calls \<^verbatim>\<open>datetime.now()\<close> once for \<open>created_at\<close> and once more for
  \<open>updated_at\<close>, instead of using one reading for both: under a clock that advances one
  microsecond between the two calls, the order just created has \<open>updated_at\<close> one
  microsecond after \<open>created_at\<close>.
\<close>

theorem create_order_timestamps_differ:
  "create_order (OrderTracker ticking_clock) (PStr ''ORD001'') (PStr ''Laptop'') (PInt 2)
     (PStr ''CUST001'') =
     (Inr [(''order_id'', PStr ''ORD001''), (''item_name'', PStr ''Laptop''),
           (''quantity'', PInt 2), (''customer_id'', PStr ''CUST001''),
           (''status'', PStr ''pending''),
           (''created_at'', PStr ''2025-07-31T12:00:00''),
           (''updated_at'', PStr ''2025-07-31T12:00:00.000001'')],
      \<lparr>storage = \<lparr>orders = [(PStr ''ORD001'',
          \<lparr>order_id = PStr ''ORD001'', item_name = PStr ''Laptop'', quantity = PInt 2,
           customer_id = PStr ''CUST001'', status = PStr ''pending'',
           created_at = Some (Datetime 2025 7 31 12 0 0 0),
           updated_at = Some (Datetime 2025 7 31 12 0 0 1)\<rparr>)]\<rparr>,
       clock = \<lparr>readings = ticking_clock, ticks = 2\<rparr>\<rparr>)"
  by (simp add: create_order_def not_a_string_def not_a_quantity_def isinstance_int_def
      le_zero_def InMemoryStorage_def storage_get_order_def
      Order_without_timestamps fresh_order_def to_dict_def timestamp_text_def save_order_def
      ticking_clock_def isoformat_noon)

section \<open>Status updates of a stored order\<close>

lemma update_order_status_stored:
  assumes "storage_get_order (storage w) oid = Some ord" "\<not> not_a_string oid"
    "\<not> not_a_string st"
  shows "update_order_status w oid st =
     (Inr (Some (to_dict (ord\<lparr>status := st,
                              updated_at := Some (readings (clock w) (ticks (clock w)))\<rparr>))),
      \<lparr>storage =
         save_order
           ((storage w)\<lparr>orders :=
              AList.update oid
                (ord\<lparr>status := st, updated_at := Some (readings (clock w) (ticks (clock w)))\<rparr>)
                (orders (storage w))\<rparr>)
           (ord\<lparr>status := st, updated_at := Some (readings (clock w) (ticks (clock w)))\<rparr>),
       clock = (clock w)\<lparr>ticks := Suc (ticks (clock w))\<rparr>\<rparr>)"
  using assms by (simp add: update_order_status_def update_status_def datetime_now_def)

lemma values_update_subset:
  "set (map snd (AList.update k v al)) \<subseteq> insert v (set (map snd al))"
  by (induction al) auto

lemma stamped_order_later: "stamped_order rs n ord \<Longrightarrow> n \<le> m \<Longrightarrow> stamped_order rs m ord"
  unfolding stamped_order_def by (meson less_le_trans)

lemma stamped_order_fresh:
  "readings c = rs \<Longrightarrow> stamped_order rs (Suc (Suc (ticks c))) (fresh_order c oid item qty cust)"
  unfolding stamped_order_def
  by (intro exI [of _ "ticks c"] exI [of _ "Suc (ticks c)"]) (simp add: fresh_order_def)

lemma stamped_order_update:
  assumes "stamped_order rs n ord"
  shows "stamped_order rs (Suc n) (ord\<lparr>status := st, updated_at := Some (rs n)\<rparr>)"
proof -
  from assms obtain i j where "i \<le> j" "j < n" "created_at ord = Some (rs i)"
    by (auto simp: stamped_order_def)
  then show ?thesis
    unfolding stamped_order_def by (intro exI [of _ i] exI [of _ n]) simp
qed

lemma stamped_create_order:
  assumes "stamped rs w"
  shows "stamped rs (snd (create_order w oid item qty cust))"
proof (cases "fst (create_order w oid item qty cust)")
  case (Inl e)
  then have "snd (create_order w oid item qty cust) = w"
    by (auto simp: create_order_def Order_without_timestamps split: if_splits)
  with assms show ?thesis by simp
next
  case (Inr d)
  then have v: "\<not> not_a_string oid" "\<not> not_a_string item" "\<not> not_a_quantity qty"
    "\<not> not_a_string cust" "storage_get_order (storage w) oid = None"
    by (auto simp: create_order_def split: if_splits)
  let ?ord = "fresh_order (clock w) oid item qty cust"
  let ?n = "Suc (Suc (ticks (clock w)))"
  from assms have r: "readings (clock w) = rs" by (simp add: stamped_def)
  have "stamped_order rs ?n ord"
    if "ord \<in> set (storage_get_all_orders (save_order (storage w) ?ord))" for ord
  proof -
    from that values_update_subset [of "order_id ?ord" ?ord "orders (storage w)"]
    have "ord = ?ord \<or> ord \<in> set (storage_get_all_orders (storage w))"
      by (auto simp: storage_get_all_orders_def save_order_def)
    then show ?thesis
    proof
      assume "ord = ?ord"
      with r show ?thesis by (simp add: stamped_order_fresh)
    next
      assume "ord \<in> set (storage_get_all_orders (storage w))"
      with assms have "stamped_order rs (ticks (clock w)) ord" by (simp add: stamped_def)
      then show ?thesis by (rule stamped_order_later) simp
    qed
  qed
  with r show ?thesis
    unfolding create_order_valid [OF v] stamped_def by simp
qed

lemma stamped_update_order_status:
  assumes "stamped rs w"
  shows "stamped rs (snd (update_order_status w oid st))"
proof (cases "\<not> not_a_string oid \<and> \<not> not_a_string st \<and> storage_get_order (storage w) oid \<noteq> None")
  case False
  then have "snd (update_order_status w oid st) = w"
    by (auto simp: update_order_status_def)
  with assms show ?thesis by simp
next
  case True
  then obtain ord where v: "storage_get_order (storage w) oid = Some ord" "\<not> not_a_string oid"
    "\<not> not_a_string st"
    by auto
  from assms have r: "readings (clock w) = rs" by (simp add: stamped_def)
  let ?n = "ticks (clock w)"
  let ?ord = "ord\<lparr>status := st, updated_at := Some (readings (clock w) ?n)\<rparr>"
  let ?s = "(storage w)\<lparr>orders := AList.update oid ?ord (orders (storage w))\<rparr>"
  from v(1) have "ord \<in> set (storage_get_all_orders (storage w))"
    by (auto simp: storage_get_order_def storage_get_all_orders_def dest!: map_of_SomeD
        intro: rev_image_eqI)
  with assms have "stamped_order rs ?n ord" by (simp add: stamped_def)
  then have new: "stamped_order rs (Suc ?n) ?ord"
    using r stamped_order_update [of rs ?n ord st] by simp
  have "stamped_order rs (Suc ?n) x" if "x \<in> set (storage_get_all_orders (save_order ?s ?ord))" for x
  proof -
    from that values_update_subset [of "order_id ?ord" ?ord "orders ?s"]
    have "x = ?ord \<or> x \<in> set (map snd (AList.update oid ?ord (orders (storage w))))"
      by (auto simp: storage_get_all_orders_def save_order_def)
    with values_update_subset [of oid ?ord "orders (storage w)"]
    have "x = ?ord \<or> x \<in> set (storage_get_all_orders (storage w))"
      by (auto simp: storage_get_all_orders_def)
    then show ?thesis
    proof
      assume "x = ?ord"
      with new show ?thesis by simp
    next
      assume "x \<in> set (storage_get_all_orders (storage w))"
      with assms have "stamped_order rs ?n x" by (simp add: stamped_def)
      then show ?thesis by (rule stamped_order_later) simp
    qed
  qed
  with r show ?thesis
    unfolding update_order_status_stored [OF v] stamped_def by simp
qed

lemma stamped_perform: "stamped rs w \<Longrightarrow> stamped rs (perform w c)"
  by (cases c)
    (simp_all add: perform_def raised_def stamped_create_order stamped_update_order_status
      get_order_def get_all_orders_def get_orders_by_status_def get_orders_by_customer_def
      split: option.splits)

lemma stamped_foldl: "stamped rs w \<Longrightarrow> stamped rs (foldl perform w calls)"
  by (induction calls arbitrary: w) (simp_all add: stamped_perform)

lemma stamped_run: "stamped rs (run rs calls)"
  unfolding run_def
  by (rule stamped_foldl) (simp add: stamped_def storage_get_all_orders_def InMemoryStorage_def)


lemma stored_order_stamped:
  assumes "storage_get_order (storage (run rs calls)) oid = Some ord"
  shows "stamped_order rs (ticks (clock (run rs calls))) ord"
    and "readings (clock (run rs calls)) = rs"
proof -
  have "stamped rs (run rs calls)" by (rule stamped_run)
  moreover from assms have "ord \<in> set (storage_get_all_orders (storage (run rs calls)))"
    by (auto simp: storage_get_order_def storage_get_all_orders_def dest!: map_of_SomeD
        intro: rev_image_eqI)
  ultimately show "stamped_order rs (ticks (clock (run rs calls))) ord"
    and "readings (clock (run rs calls)) = rs"
    by (simp_all add: stamped_def)
qed

text \<open>
  C5, as the code has it. For an order stored under \<open>oid\<close> and non-empty strings \<open>oid\<close>
  and \<open>st\<close>, \<open>update_order_status\<close> returns the updated record and stores it under \<open>oid\<close>;
  \<open>order_id\<close>, \<open>item_name\<close>, \<open>quantity\<close>, \<open>customer_id\<close> and \<open>created_at\<close> are as before,
  \<open>status\<close> is \<open>st\<close>, and \<open>updated_at\<close> is the reading the clock gives at the update. That
  reading is no earlier than the previous \<open>updated_at\<close> in every state reached by calls
  of the tracker under a clock whose readings never decrease.
\<close>

theorem update_order_status_stored_order:
  assumes "storage_get_order (storage w) oid = Some ord" "\<not> not_a_string oid"
    "\<not> not_a_string st"
  shows "\<exists>ord' w'. update_order_status w oid st = (Inr (Some (to_dict ord')), w') \<and>
           storage_get_order (storage w') oid = Some ord' \<and>
           order_id ord' = order_id ord \<and> item_name ord' = item_name ord \<and>
           quantity ord' = quantity ord \<and> customer_id ord' = customer_id ord \<and>
           created_at ord' = created_at ord \<and> status ord' = st \<and>
           updated_at ord' = Some (readings (clock w) (ticks (clock w))) \<and>
           (\<forall>rs calls. w = run rs calls \<and> nondecreasing rs \<longrightarrow>
              (\<exists>u u'. updated_at ord = Some u \<and> updated_at ord' = Some u' \<and> dt_le u u'))"
proof -
  let ?t = "readings (clock w) (ticks (clock w))"
  let ?ord = "ord\<lparr>status := st, updated_at := Some ?t\<rparr>"
  let ?s = "(storage w)\<lparr>orders := AList.update oid ?ord (orders (storage w))\<rparr>"
  let ?w' = "\<lparr>storage = save_order ?s ?ord, clock = (clock w)\<lparr>ticks := Suc (ticks (clock w))\<rparr>\<rparr>"
  have u: "update_order_status w oid st = (Inr (Some (to_dict ?ord)), ?w')"
    using assms by (rule update_order_status_stored)
  have g: "storage_get_order (storage ?w') oid = Some ?ord"
    by (simp add: storage_get_order_def save_order_def update_conv')
  have later: "\<exists>u u'. updated_at ord = Some u \<and> updated_at ?ord = Some u' \<and> dt_le u u'"
    if "w = run rs calls" "nondecreasing rs" for rs calls
  proof -
    from assms(1) that(1) have "stamped_order rs (ticks (clock w)) ord"
      and r: "readings (clock w) = rs"
      by (simp_all add: stored_order_stamped)
    then obtain j where j: "j < ticks (clock w)" "updated_at ord = Some (rs j)"
      by (auto simp: stamped_order_def)
    with that(2) have "dt_le (rs j) (rs (ticks (clock w)))"
      by (simp add: nondecreasing_def)
    with j r show ?thesis by simp
  qed
  show ?thesis
    using u g later by (intro exI [of _ ?ord] exI [of _ ?w']) simp
qed

lemma nondecreasing_ticking_clock: "nondecreasing ticking_clock"
  by (auto simp: nondecreasing_def ticking_clock_def dt_le_def dt_tuple_def)

lemma run_one_order:
  "run rs [CreateOrder (PStr ''ORDER001'') (PStr ''Test Item'') (PInt 5) (PStr ''CUST001'')] =
     \<lparr>storage = \<lparr>orders = [(PStr ''ORDER001'',
        \<lparr>order_id = PStr ''ORDER001'', item_name = PStr ''Test Item'', quantity = PInt 5,
         customer_id = PStr ''CUST001'', status = PStr ''pending'',
         created_at = Some (rs 0), updated_at = Some (rs 1)\<rparr>)]\<rparr>,
      clock = \<lparr>readings = rs, ticks = 2\<rparr>\<rparr>"
  by (simp add: run_def perform_def raised_def create_order_def not_a_string_def
      not_a_quantity_def isinstance_int_def le_zero_def Order_without_timestamps
      fresh_order_def save_order_def InMemoryStorage_def storage_get_order_def)

lemma run_create_update:
  "run rs [CreateOrder (PStr ''ORDER001'') (PStr ''Test Item'') (PInt 5) (PStr ''CUST001''),
           UpdateOrderStatus (PStr ''ORDER001'') (PStr ''shipped'')] =
     \<lparr>storage = \<lparr>orders = [(PStr ''ORDER001'',
        \<lparr>order_id = PStr ''ORDER001'', item_name = PStr ''Test Item'', quantity = PInt 5,
         customer_id = PStr ''CUST001'', status = PStr ''shipped'',
         created_at = Some (rs 0), updated_at = Some (rs 2)\<rparr>)]\<rparr>,
      clock = \<lparr>readings = rs, ticks = 3\<rparr>\<rparr>"
proof -
  have "run rs [CreateOrder (PStr ''ORDER001'') (PStr ''Test Item'') (PInt 5) (PStr ''CUST001''),
           UpdateOrderStatus (PStr ''ORDER001'') (PStr ''shipped'')] =
     snd (update_order_status
       (run rs [CreateOrder (PStr ''ORDER001'') (PStr ''Test Item'') (PInt 5) (PStr ''CUST001'')])
       (PStr ''ORDER001'') (PStr ''shipped''))"
    by (simp add: run_def perform_def raised_def)
  then show ?thesis
    unfolding run_one_order
    by (simp add: update_order_status_def not_a_string_def storage_get_order_def
        update_status_def datetime_now_def save_order_def)
qed

theorem update_order_status_stored_order_witness:
  "\<exists>ord'. fst (update_order_status
       (run ticking_clock
          [CreateOrder (PStr ''ORDER001'') (PStr ''Test Item'') (PInt 5) (PStr ''CUST001'')])
       (PStr ''ORDER001'') (PStr ''shipped'')) = Inr (Some (to_dict ord')) \<and>
     order_id ord' = PStr ''ORDER001'' \<and> item_name ord' = PStr ''Test Item'' \<and>
     quantity ord' = PInt 5 \<and> customer_id ord' = PStr ''CUST001'' \<and>
     created_at ord' = Some (ticking_clock 0) \<and> status ord' = PStr ''shipped'' \<and>
     updated_at ord' = Some (ticking_clock 2) \<and>
     dt_le (ticking_clock 1) (ticking_clock 2)"
proof -
  let ?w = "run ticking_clock
    [CreateOrder (PStr ''ORDER001'') (PStr ''Test Item'') (PInt 5) (PStr ''CUST001'')]"
  let ?ord = "\<lparr>order_id = PStr ''ORDER001'', item_name = PStr ''Test Item'', quantity = PInt 5,
    customer_id = PStr ''CUST001'', status = PStr ''pending'',
    created_at = Some (ticking_clock 0), updated_at = Some (ticking_clock 1)\<rparr>"
  have g: "storage_get_order (storage ?w) (PStr ''ORDER001'') = Some ?ord"
    by (simp add: run_one_order storage_get_order_def)
  have n: "\<not> not_a_string (PStr ''ORDER001'')" "\<not> not_a_string (PStr ''shipped'')"
    by (simp_all add: not_a_string_def)
  from update_order_status_stored_order [OF g n] obtain ord' w' where
    u: "update_order_status ?w (PStr ''ORDER001'') (PStr ''shipped'') =
          (Inr (Some (to_dict ord')), w')"
    and f: "order_id ord' = order_id ?ord" "item_name ord' = item_name ?ord"
      "quantity ord' = quantity ?ord" "customer_id ord' = customer_id ?ord"
      "created_at ord' = created_at ?ord" "status ord' = PStr ''shipped''"
      "updated_at ord' = Some (readings (clock ?w) (ticks (clock ?w)))"
    and l: "\<forall>rs calls. ?w = run rs calls \<and> nondecreasing rs \<longrightarrow>
      (\<exists>u u'. updated_at ?ord = Some u \<and> updated_at ord' = Some u' \<and> dt_le u u')"
    by blast
  from f(7) have f7: "updated_at ord' = Some (ticking_clock 2)"
    by (simp add: run_one_order)
  from l nondecreasing_ticking_clock
  have "\<exists>u u'. updated_at ?ord = Some u \<and> updated_at ord' = Some u' \<and> dt_le u u'"
    by blast
  with f7 have "dt_le (ticking_clock 1) (ticking_clock 2)"
    by simp
  with u f f7 show ?thesis
    by (intro exI [of _ ord']) simp
qed

text \<open>
  C5, as stated, fails: an order created just before local time is set back by an hour
  and updated just after gets an \<open>updated_at\<close> earlier than the one it had.
\<close>

theorem update_order_status_clock_set_back:
  "storage_get_order
     (storage (run fall_back_clock
        [CreateOrder (PStr ''ORDER001'') (PStr ''Test Item'') (PInt 5) (PStr ''CUST001'')]))
     (PStr ''ORDER001'') =
     Some \<lparr>order_id = PStr ''ORDER001'', item_name = PStr ''Test Item'', quantity = PInt 5,
           customer_id = PStr ''CUST001'', status = PStr ''pending'',
           created_at = Some (Datetime 2025 10 26 2 59 59 0),
           updated_at = Some (Datetime 2025 10 26 2 59 59 1)\<rparr> \<and>
   fst (update_order_status
     (run fall_back_clock
        [CreateOrder (PStr ''ORDER001'') (PStr ''Test Item'') (PInt 5) (PStr ''CUST001'')])
     (PStr ''ORDER001'') (PStr ''shipped'')) =
     Inr (Some (to_dict
       \<lparr>order_id = PStr ''ORDER001'', item_name = PStr ''Test Item'', quantity = PInt 5,
        customer_id = PStr ''CUST001'', status = PStr ''shipped'',
        created_at = Some (Datetime 2025 10 26 2 59 59 0),
        updated_at = Some (Datetime 2025 10 26 2 0 1 0)\<rparr>)) \<and>
   \<not> dt_le (Datetime 2025 10 26 2 59 59 1) (Datetime 2025 10 26 2 0 1 0)"
  by (simp add: run_one_order storage_get_order_def update_order_status_def not_a_string_def
      update_status_def datetime_now_def fall_back_clock_def dt_le_def dt_tuple_def)


section \<open>The order of the two timestamps\<close>

text \<open>
  C9, as the code has it. Under a clock whose readings never decrease, every order in
  every state reached by a sequence of calls of the tracker's public methods on a fresh
  tracker has \<open>created_at \<le> updated_at\<close>.
\<close>

theorem created_at_le_updated_at:
  assumes "nondecreasing rs"
  shows "\<forall>ord \<in> set (storage_get_all_orders (storage (run rs calls))).
           \<exists>c u. created_at ord = Some c \<and> updated_at ord = Some u \<and> dt_le c u"
proof
  fix ord
  assume "ord \<in> set (storage_get_all_orders (storage (run rs calls)))"
  with stamped_run [of rs calls] obtain i j where "i \<le> j" "created_at ord = Some (rs i)"
    "updated_at ord = Some (rs j)"
    by (auto simp: stamped_def stamped_order_def)
  with assms show "\<exists>c u. created_at ord = Some c \<and> updated_at ord = Some u \<and> dt_le c u"
    by (simp add: nondecreasing_def)
qed

theorem created_at_le_updated_at_witness:
  "nondecreasing ticking_clock \<and>
   storage_get_all_orders (storage (run ticking_clock
     [CreateOrder (PStr ''ORDER001'') (PStr ''Test Item'') (PInt 5) (PStr ''CUST001''),
      UpdateOrderStatus (PStr ''ORDER001'') (PStr ''shipped'')])) =
     [\<lparr>order_id = PStr ''ORDER001'', item_name = PStr ''Test Item'', quantity = PInt 5,
       customer_id = PStr ''CUST001'', status = PStr ''shipped'',
       created_at = Some (ticking_clock 0), updated_at = Some (ticking_clock 2)\<rparr>] \<and>
   dt_le (ticking_clock 0) (ticking_clock 2)"
  using created_at_le_updated_at [OF nondecreasing_ticking_clock,
      of "[CreateOrder (PStr ''ORDER001'') (PStr ''Test Item'') (PInt 5) (PStr ''CUST001''),
           UpdateOrderStatus (PStr ''ORDER001'') (PStr ''shipped'')]"]
  by (simp add: nondecreasing_ticking_clock run_create_update storage_get_all_orders_def)

text \<open>
  C9, as stated, fails: after a creation just before local time is set back and a status
  update just after, the stored order has \<open>created_at\<close> later than \<open>updated_at\<close>.
\<close>

theorem created_at_after_updated_at:
  "storage_get_all_orders (storage (run fall_back_clock
     [CreateOrder (PStr ''ORDER001'') (PStr ''Test Item'') (PInt 5) (PStr ''CUST001''),
      UpdateOrderStatus (PStr ''ORDER001'') (PStr ''shipped'')])) =
     [\<lparr>order_id = PStr ''ORDER001'', item_name = PStr ''Test Item'', quantity = PInt 5,
       customer_id = PStr ''CUST001'', status = PStr ''shipped'',
       created_at = Some (Datetime 2025 10 26 2 59 59 0),
       updated_at = Some (Datetime 2025 10 26 2 0 1 0)\<rparr>] \<and>
   \<not> dt_le (Datetime 2025 10 26 2 59 59 0) (Datetime 2025 10 26 2 0 1 0)"
  by (simp add: run_create_update storage_get_all_orders_def fall_back_clock_def dt_le_def
      dt_tuple_def)

section \<open>Filtered queries\<close>

lemma stored_iff:
  assumes "distinct (map fst (orders s))"
  shows "ord \<in> set (storage_get_all_orders s) \<longleftrightarrow> (\<exists>k. storage_get_order s k = Some ord)"
  using assms
  by (auto simp: storage_get_all_orders_def storage_get_order_def intro: rev_image_eqI)

text \<open>
  C7. In a storage with distinct keys, as a dict has, and for a non-empty string \<open>f\<close>:
  \<open>get_orders_by_status\<close> and \<open>get_orders_by_customer\<close> raise nothing, leave the state as
  it was and return the records of the stored orders whose \<open>status\<close>, respectively
  \<open>customer_id\<close>, equals \<open>f\<close>, in storage order; an order is among those selected exactly
  when it is stored under some key and its field equals \<open>f\<close>; and the result is empty when
  no stored order matches.
\<close>

theorem filtered_queries:
  assumes "distinct (map fst (orders (storage w)))" "f = PStr a" "a \<noteq> []"
  shows "get_orders_by_status w f =
           (Inr (map to_dict (filter (\<lambda>ord. status ord = f)
                                (storage_get_all_orders (storage w)))), w) \<and>
         get_orders_by_customer w f =
           (Inr (map to_dict (filter (\<lambda>ord. customer_id ord = f)
                                (storage_get_all_orders (storage w)))), w) \<and>
         (\<forall>ord. ord \<in> set (storage_get_orders_by_status (storage w) f) \<longleftrightarrow>
            (\<exists>k. storage_get_order (storage w) k = Some ord) \<and> status ord = f) \<and>
         (\<forall>ord. ord \<in> set (storage_get_orders_by_customer (storage w) f) \<longleftrightarrow>
            (\<exists>k. storage_get_order (storage w) k = Some ord) \<and> customer_id ord = f) \<and>
         ((\<forall>k ord. storage_get_order (storage w) k = Some ord \<longrightarrow> status ord \<noteq> f) \<longrightarrow>
            get_orders_by_status w f = (Inr [], w)) \<and>
         ((\<forall>k ord. storage_get_order (storage w) k = Some ord \<longrightarrow> customer_id ord \<noteq> f) \<longrightarrow>
            get_orders_by_customer w f = (Inr [], w))"
proof -
  from assms(2,3) have n: "\<not> not_a_string f" by (simp add: not_a_string_def)
  note st = stored_iff [OF assms(1)]
  have 1: "get_orders_by_status w f =
      (Inr (map to_dict (filter (\<lambda>ord. status ord = f) (storage_get_all_orders (storage w)))), w)"
    using n by (simp add: get_orders_by_status_def storage_get_orders_by_status_def
        storage_get_all_orders_def)
  have 2: "get_orders_by_customer w f =
      (Inr (map to_dict (filter (\<lambda>ord. customer_id ord = f) (storage_get_all_orders (storage w)))), w)"
    using n by (simp add: get_orders_by_customer_def storage_get_orders_by_customer_def
        storage_get_all_orders_def)
  have 3: "ord \<in> set (storage_get_orders_by_status (storage w) f) \<longleftrightarrow>
      (\<exists>k. storage_get_order (storage w) k = Some ord) \<and> status ord = f" for ord
    using st [of ord] by (simp add: storage_get_orders_by_status_def storage_get_all_orders_def)
  have 4: "ord \<in> set (storage_get_orders_by_customer (storage w) f) \<longleftrightarrow>
      (\<exists>k. storage_get_order (storage w) k = Some ord) \<and> customer_id ord = f" for ord
    using st [of ord] by (simp add: storage_get_orders_by_customer_def storage_get_all_orders_def)
  have 5: "get_orders_by_status w f = (Inr [], w)"
    if "\<forall>k ord. storage_get_order (storage w) k = Some ord \<longrightarrow> status ord \<noteq> f"
  proof -
    have "x \<notin> set (storage_get_orders_by_status (storage w) f)" for x
    proof
      assume "x \<in> set (storage_get_orders_by_status (storage w) f)"
      then obtain k where "storage_get_order (storage w) k = Some x" "status x = f"
        unfolding 3 by (elim conjE exE)
      with that show False by simp
    qed
    then have "storage_get_orders_by_status (storage w) f = []"
      by (meson last_in_set)
    with n show ?thesis by (simp add: get_orders_by_status_def)
  qed
  have 6: "get_orders_by_customer w f = (Inr [], w)"
    if "\<forall>k ord. storage_get_order (storage w) k = Some ord \<longrightarrow> customer_id ord \<noteq> f"
  proof -
    have "x \<notin> set (storage_get_orders_by_customer (storage w) f)" for x
    proof
      assume "x \<in> set (storage_get_orders_by_customer (storage w) f)"
      then obtain k where "storage_get_order (storage w) k = Some x" "customer_id x = f"
        unfolding 4 by (elim conjE exE)
      with that show False by simp
    qed
    then have "storage_get_orders_by_customer (storage w) f = []"
      by (meson last_in_set)
    with n show ?thesis by (simp add: get_orders_by_customer_def)
  qed
  from 1 2 3 4 5 6 show ?thesis by blast
qed


theorem filtered_queries_witness:
  "get_orders_by_status three_orders (PStr ''shipped'') =
     (Inr [to_dict second_order], three_orders) \<and>
   get_orders_by_customer three_orders (PStr ''CUST001'') =
     (Inr [to_dict sample_order, to_dict third_order], three_orders) \<and>
   get_orders_by_status three_orders (PStr ''Shipped'') = (Inr [], three_orders) \<and>
   get_orders_by_customer three_orders (PStr ''CUST009'') = (Inr [], three_orders)"
proof -
  have d: "distinct (map fst (orders (storage three_orders)))"
    by (simp add: three_orders_def)
  have a: "storage_get_all_orders (storage three_orders) = [sample_order, second_order, third_order]"
    by (simp add: three_orders_def storage_get_all_orders_def)
  have s: "status sample_order = PStr ''pending''" "status second_order = PStr ''shipped''"
    "status third_order = PStr ''pending''" "customer_id sample_order = PStr ''CUST001''"
    "customer_id second_order = PStr ''CUST002''" "customer_id third_order = PStr ''CUST001''"
    by (simp_all add: sample_order_def second_order_def third_order_def)
  have g: "storage_get_order (storage three_orders) k = Some ord \<longrightarrow>
      status ord \<noteq> PStr ''Shipped'' \<and> customer_id ord \<noteq> PStr ''CUST009''" for k ord
    using s by (auto simp: three_orders_def storage_get_order_def split: if_splits)
  from filtered_queries [OF d, of "PStr ''shipped''" "''shipped''"]
    filtered_queries [OF d, of "PStr ''CUST001''" "''CUST001''"]
    filtered_queries [OF d, of "PStr ''Shipped''" "''Shipped''"]
    filtered_queries [OF d, of "PStr ''CUST009''" "''CUST009''"] g
  show ?thesis by (simp add: a s)
qed

section \<open>Validation failures\<close>

lemma raised_error [simp]: "raised (Inl e, w) = (Some e, w)"
  by (simp add: raised_def)

lemma not_a_string_documented: "not_a_string v \<longleftrightarrow> \<not> documented_nonempty_string v"
  by (cases v) (simp_all add: not_a_string_def)

lemma not_a_quantity_documented:
  "v \<noteq> PBool True \<Longrightarrow> not_a_quantity v \<longleftrightarrow> \<not> documented_quantity v"
  by (cases v) (auto simp: not_a_quantity_def isinstance_int_def le_zero_def)

text \<open>
  Apart from a quantity \<^verbatim>\<open>True\<close>, the code follows the table: when some documented
  precondition fails, the call raises \<^verbatim>\<open>ValueError\<close> with the reason of the first failing
  check and leaves the state as it was.
\<close>

lemma first_failure_reported:
  assumes "first_failure (documented_checks c) = Some reason"
    and "\<And>oid item cust. c \<noteq> CreateOrder oid item (PBool True) cust"
  shows "outcome w c = (Some (ValueError reason), w)"
proof (cases c)
  case (CreateOrder oid item qty cust)
  with assms(2) have "qty \<noteq> PBool True" by blast
  then have "not_a_quantity qty \<longleftrightarrow> \<not> documented_quantity qty"
    by (rule not_a_quantity_documented)
  with assms(1) CreateOrder show ?thesis
    by (auto simp: create_order_def not_a_string_documented split: if_splits)
next
  case (GetOrder oid)
  with assms(1) show ?thesis
    by (auto simp: get_order_def not_a_string_documented split: if_splits)
next
  case (UpdateOrderStatus oid st)
  with assms(1) show ?thesis
    by (auto simp: update_order_status_def not_a_string_documented split: if_splits)
next
  case GetAllOrders
  with assms(1) show ?thesis by simp
next
  case (GetOrdersByStatus st)
  with assms(1) show ?thesis
    by (auto simp: get_orders_by_status_def not_a_string_documented split: if_splits)
next
  case (GetOrdersByCustomer cust)
  with assms(1) show ?thesis
    by (auto simp: get_orders_by_customer_def not_a_string_documented split: if_splits)
qed

text \<open>
  C8. With the quantity \<^verbatim>\<open>True\<close> the documented quantity precondition fails, and the code
  does not report it. When the customer id is empty as well, the first failing check of
  the table is the quantity, yet the call raises the reason of the customer id. When
  the other arguments are valid, the call raises nothing and stores the order.
\<close>

theorem create_order_True_not_reported:
  "first_failure (documented_checks
      (CreateOrder (PStr ''ORD001'') (PStr ''Laptop'') (PBool True) (PStr []))) =
     Some ''quantity is mandatory and must be bigger than 0'' \<and>
   outcome (OrderTracker rs)
      (CreateOrder (PStr ''ORD001'') (PStr ''Laptop'') (PBool True) (PStr [])) =
     (Some (ValueError ''customer_id is mandatory''), OrderTracker rs) \<and>
   first_failure (documented_checks
      (CreateOrder (PStr ''ORD001'') (PStr ''Laptop'') (PBool True) (PStr ''CUST001''))) =
     Some ''quantity is mandatory and must be bigger than 0'' \<and>
   outcome (OrderTracker rs)
      (CreateOrder (PStr ''ORD001'') (PStr ''Laptop'') (PBool True) (PStr ''CUST001'')) =
     (None,
      \<lparr>storage = \<lparr>orders = [(PStr ''ORD001'',
          \<lparr>order_id = PStr ''ORD001'', item_name = PStr ''Laptop'', quantity = PBool True,
           customer_id = PStr ''CUST001'', status = PStr ''pending'',
           created_at = Some (rs 0), updated_at = Some (rs 1)\<rparr>)]\<rparr>,
       clock = \<lparr>readings = rs, ticks = 2\<rparr>\<rparr>)"
  by (simp add: raised_def create_order_def not_a_string_def not_a_quantity_def
      isinstance_int_def le_zero_def InMemoryStorage_def storage_get_order_def
      Order_without_timestamps fresh_order_def save_order_def)

section \<open>The data representation reads back\<close>

lemma timestamp_reads_back:
  assumes "valid_datetime t" "map_of data k = Some (PStr (isoformat t))"
  shows "parse_timestamp data k = Inr (Some t)"
proof -
  have "isoformat t \<noteq> []"
    using length_isoformat [of t] by (auto split: if_splits)
  with assms show ?thesis
    by (simp add: parse_timestamp_def fromisoformat_isoformat)
qed

text \<open>
  C10. For an order whose two timestamps are set (to datetimes within the ranges every
  datetime object has), \<open>from_dict\<close> of its \<open>to_dict\<close> raises nothing, reads no clock and
  gives back the same order, equal in all seven fields.
\<close>

theorem from_dict_to_dict:
  assumes "created_at ord = Some c" "updated_at ord = Some u" "valid_datetime c"
    "valid_datetime u"
  shows "from_dict clk (to_dict ord) = (Inr ord, clk)"
proof -
  have "parse_timestamp (to_dict ord) ''created_at'' = Inr (Some c)"
    using assms(3) by (rule timestamp_reads_back) (simp add: to_dict_def timestamp_text_def assms)
  moreover have "parse_timestamp (to_dict ord) ''updated_at'' = Inr (Some u)"
    using assms(4) by (rule timestamp_reads_back) (simp add: to_dict_def timestamp_text_def assms)
  moreover have "subscript (to_dict ord) ''order_id'' = Inr (order_id ord)"
    "subscript (to_dict ord) ''item_name'' = Inr (item_name ord)"
    "subscript (to_dict ord) ''quantity'' = Inr (quantity ord)"
    "subscript (to_dict ord) ''customer_id'' = Inr (customer_id ord)"
    "map_of (to_dict ord) ''status'' = Some (status ord)"
    by (simp_all add: subscript_def to_dict_def)
  moreover have "Order clk (order_id ord) (item_name ord) (quantity ord) (customer_id ord)
      (status ord) (Some c) (Some u) = (ord, clk)"
    using assms(1,2) by (simp add: Order_def post_init_def)
  ultimately show ?thesis
    by (simp add: from_dict_def)
qed

theorem from_dict_to_dict_witness:
  "from_dict \<lparr>readings = ticking_clock, ticks = 0\<rparr> (to_dict sample_order) =
     (Inr sample_order, \<lparr>readings = ticking_clock, ticks = 0\<rparr>)"
  by (rule from_dict_to_dict [of _ "Datetime 2025 7 31 10 0 0 0" "Datetime 2025 7 31 10 0 0 0"])
    (simp_all add: sample_order_def valid_datetime_def days_in_month_def)

end
